theory Spec2Isabelle
  imports Main "HOL-Library.Word"
begin

unbundle bit_operations_syntax

section \<open>The userspace physical memory sandbox of ksm (sandbox.c)\<close>

text \<open>
  A shallow embedding of \<^verbatim>\<open>sandbox.c\<close>: the task registry, the copy-on-write page
  store, the EPT violation handler and the CR3 load handler. The model is sequential:
  one handler runs to completion at a time, so the spin lock around the registry is
  not represented. Pointers are addresses (\<open>0\<close> is \<^verbatim>\<open>NULL\<close>); an object that lives
  in allocated memory is kept as a pair of its address and its fields.
\<close>

subsection \<open>Machine types\<close>

type_synonym u8 = "8 word"
type_synonym u16 = "16 word"
type_synonym u64 = "64 word"
type_synonym pid_t = "32 word"

subsection \<open>Constants declared in headers\<close>

text \<open>
  The macros below are used by \<^verbatim>\<open>sandbox.c\<close> and declared in \<^verbatim>\<open>ksm.h\<close> and
  \<^verbatim>\<open>mm.h\<close>. Their values are parameters of every definition.
\<close>

record macros =
  KSM_MAX_VCPUS :: nat
  EPT_MAX_EPTP_LIST :: u16
  EPTP_DEFAULT :: u16
  EPT_ACCESS_WRITE :: int
  EPT_ACCESS_RX :: int
  PAGE_USER :: u64
  PAGE_PA_MASK :: u64
  PAGE_SHIFT :: nat
  PAGE_SIZE :: nat
  ERR_NOMEM :: int
  EINVAL :: int
  ENOENT :: int

subsection \<open>Data\<close>

text \<open>\<^verbatim>\<open>struct cow_page\<close> (the \<^verbatim>\<open>link\<close> field is the position in the owner's list).\<close>

record cow_page =
  gpa :: u64
  hpa :: u64
  hva :: u64

text \<open>\<^verbatim>\<open>struct sa_task\<close>; \<open>eptp\<close> is the array of \<^verbatim>\<open>KSM_MAX_VCPUS\<close> view identifiers.\<close>

record sa_task =
  pid :: pid_t
  pgd :: u64
  eptp :: "u16 list"
  pages :: "(u64 \<times> cow_page) list"

text \<open>
  An EPT entry, as far as the sandbox touches it: its access rights and the page frame
  it points at. An \<^verbatim>\<open>struct ept\<close> holds the views that are allocated, each with the
  access it was created with, and the entries of every view by page frame number.
\<close>

record epte =
  epte_ar :: int
  epte_pfn :: u64

record ept_t =
  ptr_list :: "(u16 \<times> int) list"
  EPT4 :: "u16 \<Rightarrow> u64 \<Rightarrow> epte"

record vcpu =
  ept :: ept_t
  root_eptp :: u16

text \<open>
  The state of the memory collaborator (\<^verbatim>\<open>mm.h\<close>): the windows mapped by
  \<^verbatim>\<open>mm_remap\<close> (host address and the physical address behind it), the records
  handed out by \<^verbatim>\<open>mm_alloc_pool\<close>, the pages handed out by \<^verbatim>\<open>mm_alloc_page\<close>, and
  the bytes of physical memory.
\<close>

record mm_state =
  windows :: "(u64 \<times> u64) list"
  pool :: "u64 list"
  page_allocs :: "u64 list"
  phys :: "u64 \<Rightarrow> u8"

text \<open>\<^verbatim>\<open>struct ksm\<close>, with the memory collaborator's state beside it.\<close>

record ksm =
  task_list :: "(u64 \<times> sa_task) list"
  vcpu_list :: "nat \<Rightarrow> vcpu"
  mm :: mm_state

text \<open>
  What the surroundings answer during one call: the running process and core, the guest
  page table walk, \<^verbatim>\<open>__pa\<close>, and the Linux process lookup of \<^verbatim>\<open>ksm_sandbox\<close>.
\<close>

record env =
  proc_pid :: pid_t
  cpu_nr :: nat
  pte_from_cr3_va :: "u64 \<Rightarrow> u64 \<Rightarrow> u64 option"
  pa :: "u64 \<Rightarrow> u64"
  find_vpid :: "pid_t \<Rightarrow> nat option"
  pid_task :: "nat \<Rightarrow> u64 option"

text \<open>
  The addresses the memory collaborator returns to one call (\<open>0\<close> when the allocation
  fails), and the identifier the EPT collaborator returns (\<open>None\<close> when it fails).
\<close>

record mm_res =
  remap_res :: u64
  pool_res :: u64
  page_res :: u64

datatype fault = BUG | OUT_OF_BOUNDS

subsection \<open>Collaborators\<close>

text \<open>
  Modelled from the spec: the intrusive list of \<^verbatim>\<open>list.h\<close>. \<^verbatim>\<open>list_add\<close> appends
  the node to the list, \<^verbatim>\<open>list_del\<close> unlinks it.
\<close>

definition list_add :: "'a list \<Rightarrow> 'a \<Rightarrow> 'a list" where
  "list_add h n = h @ [n]"

definition list_del :: "'a list \<Rightarrow> 'a \<Rightarrow> 'a list" where
  "list_del h n = remove1 n h"

text \<open>
  Modelled from the spec: the physical memory allocator of \<^verbatim>\<open>mm.h\<close>, which allocates
  and frees a fixed-size page and a fixed-size record and maps and unmaps a physical
  frame into host-accessible memory. The address returned is given by the caller of
  the model; \<open>0\<close> is a failed allocation. Freeing through an interface releases what
  that interface handed out.
\<close>

definition mm_remap :: "mm_state \<Rightarrow> u64 \<Rightarrow> u64 \<Rightarrow> u64 \<times> mm_state" where
  "mm_remap m r addr =
     (if r = 0 then (0, m) else (r, m\<lparr>windows := (r, addr) # windows m\<rparr>))"

fun del_window :: "u64 \<Rightarrow> (u64 \<times> u64) list \<Rightarrow> (u64 \<times> u64) list" where
  "del_window h [] = []"
| "del_window h (w # ws) = (if fst w = h then ws else w # del_window h ws)"

definition mm_unmap :: "mm_state \<Rightarrow> u64 \<Rightarrow> mm_state" where
  "mm_unmap m h = m\<lparr>windows := del_window h (windows m)\<rparr>"

definition mm_alloc_pool :: "mm_state \<Rightarrow> u64 \<Rightarrow> u64 \<times> mm_state" where
  "mm_alloc_pool m r = (if r = 0 then (0, m) else (r, m\<lparr>pool := r # pool m\<rparr>))"

definition mm_free_pool :: "mm_state \<Rightarrow> u64 \<Rightarrow> mm_state" where
  "mm_free_pool m p = m\<lparr>pool := remove1 p (pool m)\<rparr>"

definition mm_alloc_page :: "mm_state \<Rightarrow> u64 \<Rightarrow> u64 \<times> mm_state" where
  "mm_alloc_page m r = (if r = 0 then (0, m) else (r, m\<lparr>page_allocs := r # page_allocs m\<rparr>))"

definition mm_free_page :: "mm_state \<Rightarrow> u64 \<Rightarrow> mm_state" where
  "mm_free_page m p = m\<lparr>page_allocs := remove1 p (page_allocs m)\<rparr>"

text \<open>\<^verbatim>\<open>memcpy\<close> on physical memory: \<open>n\<close> bytes from \<open>src\<close> to \<open>dst\<close>.\<close>

definition memcpy :: "(u64 \<Rightarrow> u8) \<Rightarrow> u64 \<Rightarrow> u64 \<Rightarrow> nat \<Rightarrow> (u64 \<Rightarrow> u8)" where
  "memcpy m dst src n = (\<lambda>a. if unat (a - dst) < n then m (src + (a - dst)) else m a)"

text \<open>
  Modelled from the spec: the EPT collaborator. \<^verbatim>\<open>ept_create_ptr\<close> creates an
  isolated view whose every entry has the given access and returns its identifier, or
  fails; an identifier is never the value that marks a slot unassigned.
  \<^verbatim>\<open>ept_free_ptr\<close> frees a view. \<^verbatim>\<open>ept_pte\<close> is the entry of the page that holds
  an address; \<^verbatim>\<open>__set_epte_ar\<close> and \<^verbatim>\<open>__set_epte_ar_pfn\<close> change an entry's access
  rights, and its target frame.
\<close>

definition ept_create_ptr :: "macros \<Rightarrow> ept_t \<Rightarrow> int \<Rightarrow> u16 option \<Rightarrow> (ept_t \<times> u16) option" where
  "ept_create_ptr c e access r =
     (case r of
        None \<Rightarrow> None
      | Some i \<Rightarrow>
          if i = EPT_MAX_EPTP_LIST c then None
          else Some (e\<lparr>ptr_list := (i, access) # ptr_list e,
                       EPT4 := (EPT4 e)(i := (\<lambda>g. (EPT4 e i g)\<lparr>epte_ar := access\<rparr>))\<rparr>, i))"

definition ept_free_ptr :: "ept_t \<Rightarrow> u16 \<Rightarrow> ept_t" where
  "ept_free_ptr e i = e\<lparr>ptr_list := filter (\<lambda>v. fst v \<noteq> i) (ptr_list e)\<rparr>"

definition ept_pte :: "macros \<Rightarrow> ept_t \<Rightarrow> u16 \<Rightarrow> u64 \<Rightarrow> epte" where
  "ept_pte c e view addr = EPT4 e view (drop_bit (PAGE_SHIFT c) addr)"

definition set_epte_ar :: "epte \<Rightarrow> int \<Rightarrow> epte" where
  "set_epte_ar x a = x\<lparr>epte_ar := a\<rparr>"

definition set_epte_ar_pfn :: "epte \<Rightarrow> int \<Rightarrow> u64 \<Rightarrow> epte" where
  "set_epte_ar_pfn x a pfn = x\<lparr>epte_ar := a, epte_pfn := pfn\<rparr>"

text \<open>Writing through the pointer that \<^verbatim>\<open>ept_pte\<close> returned, on core \<open>v\<close>.\<close>

definition epte_store :: "macros \<Rightarrow> ksm \<Rightarrow> nat \<Rightarrow> u16 \<Rightarrow> u64 \<Rightarrow> epte \<Rightarrow> ksm" where
  "epte_store c k v view addr x =
     k\<lparr>vcpu_list := (vcpu_list k)(v := (vcpu_list k v)\<lparr>ept :=
        (ept (vcpu_list k v))\<lparr>EPT4 := (EPT4 (ept (vcpu_list k v)))(view :=
           (EPT4 (ept (vcpu_list k v)) view)(drop_bit (PAGE_SHIFT c) addr := x))\<rparr>\<rparr>)\<rparr>"

text \<open>Modelled from the spec: \<^verbatim>\<open>vcpu_switch_root_eptp\<close> sets a core's active view.\<close>

definition vcpu_switch_root_eptp :: "ksm \<Rightarrow> nat \<Rightarrow> u16 \<Rightarrow> ksm" where
  "vcpu_switch_root_eptp k v i =
     k\<lparr>vcpu_list := (vcpu_list k)(v := (vcpu_list k v)\<lparr>root_eptp := i\<rparr>)\<rparr>"

subsection \<open>The task registry and the page store\<close>

text \<open>The position of the first element that satisfies \<open>P\<close>: the pointer a scan returns.\<close>

fun first_index :: "('a \<Rightarrow> bool) \<Rightarrow> 'a list \<Rightarrow> nat option" where
  "first_index P [] = None"
| "first_index P (x # xs) = (if P x then Some 0 else map_option Suc (first_index P xs))"

definition task_eptp :: "env \<Rightarrow> sa_task \<Rightarrow> u16" where
  "task_eptp e task = eptp task ! cpu_nr e"

text \<open>
  \<^verbatim>\<open>free_cow_page\<close>: unlink the page from the list it is on, free its frame, free
  its record. Both are freed with \<^verbatim>\<open>mm_free_page\<close>.
\<close>

definition free_cow_page ::
  "mm_state \<times> (u64 \<times> cow_page) list \<Rightarrow> u64 \<times> cow_page \<Rightarrow> mm_state \<times> (u64 \<times> cow_page) list" where
  "free_cow_page s page =
     (mm_free_page (mm_free_page (fst s) (hva (snd page))) (fst page), list_del (snd s) page)"

text \<open>
  \<^verbatim>\<open>__free_sa_task\<close>. The first loop runs over the slots of the task and frees, for
  every slot that is not unassigned, that identifier in the EPT of \<^verbatim>\<open>ksm_cpu(k)\<close>,
  the core the call runs on. The second loop frees every page of the task. The record
  of the task is freed last, and its page list goes with it. The task is not unlinked
  here: the registry keeps the node.
\<close>

definition free_sa_task_views :: "macros \<Rightarrow> ept_t \<Rightarrow> u16 list \<Rightarrow> ept_t" where
  "free_sa_task_views c e slots =
     fold (\<lambda>i e'. if i \<noteq> EPT_MAX_EPTP_LIST c then ept_free_ptr e' i else e') slots e"

definition free_sa_task_unlocked :: "macros \<Rightarrow> env \<Rightarrow> ksm \<Rightarrow> u64 \<times> sa_task \<Rightarrow> ksm" where
  "free_sa_task_unlocked c e k t =
     (let task = snd t;
          cur = cpu_nr e;
          e1 = free_sa_task_views c (ept (vcpu_list k cur)) (eptp task);
          k1 = k\<lparr>vcpu_list := (vcpu_list k)(cur := (vcpu_list k cur)\<lparr>ept := e1\<rparr>)\<rparr>;
          s = fold (\<lambda>page s'. free_cow_page s' page) (pages task) (mm k1, pages task)
      in k1\<lparr>mm := mm_free_pool (fst s) (fst t)\<rparr>)"

text \<open>\<^verbatim>\<open>free_sa_task\<close>: unlink the task, then free it.\<close>

definition free_sa_task :: "macros \<Rightarrow> env \<Rightarrow> ksm \<Rightarrow> nat \<Rightarrow> ksm" where
  "free_sa_task c e k ti =
     (let t = task_list k ! ti
      in free_sa_task_unlocked c e (k\<lparr>task_list := list_del (task_list k) t\<rparr>) t)"

definition ksm_sandbox_init :: "ksm \<Rightarrow> int \<times> ksm" where
  "ksm_sandbox_init k = (0, k\<lparr>task_list := []\<rparr>)"

definition ksm_sandbox_exit :: "macros \<Rightarrow> env \<Rightarrow> ksm \<Rightarrow> int \<times> ksm" where
  "ksm_sandbox_exit c e k =
     (0, fold (\<lambda>t k'. free_sa_task_unlocked c e k' t) (task_list k) k)"

definition create_sa_task :: "macros \<Rightarrow> u64 \<Rightarrow> ksm \<Rightarrow> pid_t \<Rightarrow> u64 \<Rightarrow> int \<times> ksm" where
  "create_sa_task c r k p d =
     (let (task, m1) = mm_alloc_pool (mm k) r in
      if task = 0 then (ERR_NOMEM c, k\<lparr>mm := m1\<rparr>)
      else (0, k\<lparr>task_list := list_add (task_list k)
                    (task, \<lparr>pid = p, pgd = d,
                            eptp = replicate (KSM_MAX_VCPUS c) (EPT_MAX_EPTP_LIST c),
                            pages = []\<rparr>),
                 mm := m1\<rparr>))"

text \<open>
  \<^verbatim>\<open>ksm_sandbox_copy_page\<close>. The window \<open>h\<close> shows the physical frame at the address
  given, and the new page \<open>hva\<close> lies at \<^verbatim>\<open>__pa(hva)\<close>, so the copy goes from the one
  physical address to the other.
\<close>

definition ksm_sandbox_copy_page ::
  "macros \<Rightarrow> env \<Rightarrow> mm_res \<Rightarrow> mm_state \<Rightarrow> sa_task \<Rightarrow> u64
     \<Rightarrow> (u64 \<times> cow_page) option \<times> sa_task \<times> mm_state" where
  "ksm_sandbox_copy_page c e r m task addr =
     (let (h, m1) = mm_remap m (remap_res r) addr in
      if h = 0 then (None, task, m1)
      else
        let (page, m2) = mm_alloc_pool m1 (pool_res r) in
        if page = 0 then (None, task, mm_unmap m2 h)
        else
          let (v, m3) = mm_alloc_page m2 (page_res r) in
          if v = 0 then (None, task, mm_unmap (mm_free_pool m3 page) h)
          else
            let m4 = m3\<lparr>phys := memcpy (phys m3) (pa e v) addr (PAGE_SIZE c)\<rparr>;
                cp = \<lparr>gpa = addr, hpa = pa e v, hva = v\<rparr>
            in (Some (page, cp), task\<lparr>pages := list_add (pages task) (page, cp)\<rparr>, m4))"

text \<open>\<^verbatim>\<open>ksm_sandbox\<close>, the Linux variant.\<close>

definition ksm_sandbox :: "macros \<Rightarrow> env \<Rightarrow> u64 \<Rightarrow> ksm \<Rightarrow> pid_t \<Rightarrow> int \<times> ksm" where
  "ksm_sandbox c e r k p =
     (case find_vpid e p of
        None \<Rightarrow> (- EINVAL c, k)
      | Some tsk_pid \<Rightarrow>
          (case pid_task e tsk_pid of
             None \<Rightarrow> (- ENOENT c, k)
           | Some tsk_pgd \<Rightarrow> create_sa_task c r k p (pa e tsk_pgd AND PAGE_PA_MASK c)))"

definition find_sa_task :: "ksm \<Rightarrow> pid_t \<Rightarrow> nat option" where
  "find_sa_task k p = first_index (\<lambda>t. pid (snd t) = p) (task_list k)"

definition find_sa_task_pgd :: "ksm \<Rightarrow> u64 \<Rightarrow> nat option" where
  "find_sa_task_pgd k d = first_index (\<lambda>t. pgd (snd t) = d) (task_list k)"

subsection \<open>The EPT violation handler\<close>

text \<open>
  The condition of line 279, \<^verbatim>\<open>u_pte != gva && ac && !u_pte & EPT_ACCESS_WRITE\<close>, as C
  parses it: \<^verbatim>\<open>(u_pte != gva) && ac && ((!u_pte) & EPT_ACCESS_WRITE)\<close>. The boolean
  \<^verbatim>\<open>u_pte\<close> is promoted to an integer for the comparison and for the bitwise and.
\<close>

definition cow_cond :: "macros \<Rightarrow> bool \<Rightarrow> u64 \<Rightarrow> u8 \<Rightarrow> bool" where
  "cow_cond c u_pte gva ac =
     ((of_bool u_pte :: u64) \<noteq> gva \<and> ac \<noteq> 0 \<and>
      (of_bool (\<not> u_pte) :: int) AND EPT_ACCESS_WRITE c \<noteq> 0)"

record ept_result =
  ret :: bool
  invd :: bool
  eptp_switch :: u16
  ksm_after :: ksm

definition ksm_sandbox_handle_ept ::
  "macros \<Rightarrow> env \<Rightarrow> mm_res \<Rightarrow> ksm \<Rightarrow> nat \<Rightarrow> int \<Rightarrow> u64 \<Rightarrow> u64 \<Rightarrow> u16 \<Rightarrow> u8 \<Rightarrow> u8
     \<Rightarrow> bool \<Rightarrow> u16 \<Rightarrow> fault + ept_result" where
  "ksm_sandbox_handle_ept c e r k v dpl g_pa g_va curr_id ar ac invd0 switch0 =
     (case find_sa_task k (proc_pid e) of
        None \<Rightarrow> Inr \<lparr>ret = True, invd = invd0, eptp_switch = EPTP_DEFAULT c, ksm_after = k\<rparr>
      | Some ti \<Rightarrow>
          let task = snd (task_list k ! ti) in
          if \<not> cpu_nr e < length (eptp task) then Inl OUT_OF_BOUNDS
          else if task_eptp e task = EPT_MAX_EPTP_LIST c then Inl BUG
          else
            let epte = ept_pte c (ept (vcpu_list k v)) curr_id g_pa in
            if task_eptp e task \<noteq> curr_id then Inl BUG
            else
              let pte = pte_from_cr3_va e (pgd task) g_va;
                  u_pte = (case pte of None \<Rightarrow> False | Some x \<Rightarrow> x AND PAGE_USER c \<noteq> 0);
                  u_access = (dpl \<noteq> 0)
              in
                if cow_cond c u_pte g_va ac then
                  (case ksm_sandbox_copy_page c e r (mm k) task g_pa of
                     (None, task', m') \<Rightarrow>
                       Inr \<lparr>ret = False, invd = invd0, eptp_switch = switch0,
                            ksm_after = k\<lparr>task_list := (task_list k)[ti := (fst (task_list k ! ti), task')],
                                          mm := m'\<rparr>\<rparr>
                   | (Some page, task', m') \<Rightarrow>
                       let k' = k\<lparr>task_list := (task_list k)[ti := (fst (task_list k ! ti), task')],
                                  mm := m'\<rparr>
                       in Inr \<lparr>ret = True, invd = True, eptp_switch = switch0,
                               ksm_after = epte_store c k' v curr_id g_pa
                                 (set_epte_ar_pfn epte (uint ar OR uint ac)
                                    (drop_bit (PAGE_SHIFT c) (hpa (snd page))))\<rparr>)
                else
                  Inr \<lparr>ret = True, invd = True, eptp_switch = switch0,
                       ksm_after = epte_store c k v curr_id g_pa (set_epte_ar epte (uint ar OR uint ac))\<rparr>)"

subsection \<open>The CR3 load handler\<close>

definition ksm_sandbox_handle_cr3 ::
  "macros \<Rightarrow> env \<Rightarrow> u16 option \<Rightarrow> ksm \<Rightarrow> nat \<Rightarrow> u64 \<Rightarrow> fault + ksm" where
  "ksm_sandbox_handle_cr3 c e r k v cr3 =
     (let d = cr3 AND PAGE_PA_MASK c in
      case find_sa_task_pgd k d of
        Some ti \<Rightarrow>
          let task = snd (task_list k ! ti) in
          if \<not> cpu_nr e < length (eptp task) then Inl OUT_OF_BOUNDS
          else if eptp task ! cpu_nr e = EPT_MAX_EPTP_LIST c then
            (case ept_create_ptr c (ept (vcpu_list k v)) (EPT_ACCESS_RX c) r of
               None \<Rightarrow> Inl BUG
             | Some (e', i) \<Rightarrow>
                 Inr (vcpu_switch_root_eptp
                   (k\<lparr>vcpu_list := (vcpu_list k)(v := (vcpu_list k v)\<lparr>ept := e'\<rparr>),
                      task_list := (task_list k)
                        [ti := (fst (task_list k ! ti), task\<lparr>eptp := (eptp task)[cpu_nr e := i]\<rparr>)]\<rparr>)
                   v i))
          else Inr (vcpu_switch_root_eptp k v (eptp task ! cpu_nr e))
      | None \<Rightarrow> Inr (vcpu_switch_root_eptp k v (EPTP_DEFAULT c)))"

subsection \<open>What the spec asks of the registry and of the handler\<close>

text \<open>
  The well-formedness of the registry that the handlers rely on: every task has one
  slot per core, and the task records are distinct, non-null and live in the pool.
\<close>

definition registry_wf :: "macros \<Rightarrow> ksm \<Rightarrow> bool" where
  "registry_wf c k =
     (list_all (\<lambda>t. length (eptp (snd t)) = KSM_MAX_VCPUS c) (task_list k) \<and>
      distinct (map fst (task_list k)) \<and>
      list_all (\<lambda>t. fst t \<noteq> 0 \<and> fst t \<in> set (pool (mm k))) (task_list k))"

text \<open>
  The copy-on-write trigger in the spec's words: the access is a write, the requester
  has user privilege, the guest's own page tables do not grant user access at the
  address, and the view has not granted write access yet.
\<close>

definition cow_trigger_spec :: "macros \<Rightarrow> int \<Rightarrow> bool \<Rightarrow> u8 \<Rightarrow> u8 \<Rightarrow> bool" where
  "cow_trigger_spec c dpl u_pte ar ac =
     (uint ac AND EPT_ACCESS_WRITE c \<noteq> 0 \<and> dpl \<noteq> 0 \<and> \<not> u_pte \<and>
      uint ar AND EPT_ACCESS_WRITE c = 0)"

subsection \<open>A concrete machine\<close>

text \<open>
  Two cores, with the constants at the values the x86 hardware formats give them: in
  an EPT entry bit 0 is read, bit 1 is write and bit 2 is execute access; in a guest
  page table entry bit 2 is the user bit; pages have 4096 bytes. Process 42 has its
  page directory at physical address \<open>0x1000\<close>, and its page tables map the faulting
  address present and writable, without the user bit.
\<close>

definition x86_macros :: macros where
  "x86_macros = \<lparr>KSM_MAX_VCPUS = 2, EPT_MAX_EPTP_LIST = 512, EPTP_DEFAULT = 0,
     EPT_ACCESS_WRITE = 2, EPT_ACCESS_RX = 5, PAGE_USER = 4, PAGE_PA_MASK = 0xFFFFFFFFF000,
     PAGE_SHIFT = 12, PAGE_SIZE = 4096, ERR_NOMEM = - 12, EINVAL = 22, ENOENT = 2\<rparr>"

definition boot_vcpu :: vcpu where
  "boot_vcpu = \<lparr>ept = \<lparr>ptr_list = [(0, 7)], EPT4 = (\<lambda>i g. \<lparr>epte_ar = 7, epte_pfn = g\<rparr>)\<rparr>,
     root_eptp = 0\<rparr>"

definition boot_mm :: mm_state where
  "boot_mm = \<lparr>windows = [], pool = [], page_allocs = [], phys = (\<lambda>a. 0)\<rparr>"

definition boot_ksm :: ksm where
  "boot_ksm = \<lparr>task_list = [], vcpu_list = (\<lambda>n. boot_vcpu), mm = boot_mm\<rparr>"

definition core_env :: "nat \<Rightarrow> env" where
  "core_env n = \<lparr>proc_pid = 42, cpu_nr = n,
     pte_from_cr3_va = (\<lambda>d a. if d = 0x1000 then Some 3 else None),
     pa = (\<lambda>v. v - 0x1000000),
     find_vpid = (\<lambda>p. if p = 42 then Some 7 else None),
     pid_task = (\<lambda>t. if t = 7 then Some 0x1001000 else None)\<rparr>"

definition task42 :: "u16 list \<Rightarrow> (u64 \<times> cow_page) list \<Rightarrow> u64 \<times> sa_task" where
  "task42 slots ps = (0x100, \<lparr>pid = 42, pgd = 0x1000, eptp = slots, pages = ps\<rparr>)"

text \<open>The machine after \<^verbatim>\<open>ksm_sandbox(k, 42)\<close>.\<close>

definition registered_ksm :: ksm where
  "registered_ksm = boot_ksm\<lparr>task_list := [task42 [512, 512] []], mm := boot_mm\<lparr>pool := [0x100]\<rparr>\<rparr>"

text \<open>The machine after the first CR3 load of process 42 on core \<open>n\<close>, which made view 1.\<close>

definition view_vcpu :: vcpu where
  "view_vcpu = boot_vcpu\<lparr>ept := (ept boot_vcpu)\<lparr>ptr_list := [(1, 5), (0, 7)],
      EPT4 := (EPT4 (ept boot_vcpu))(1 := (\<lambda>g. (EPT4 (ept boot_vcpu) 1 g)\<lparr>epte_ar := 5\<rparr>))\<rparr>,
      root_eptp := 1\<rparr>"

definition view_ksm :: "nat \<Rightarrow> ksm" where
  "view_ksm n = registered_ksm\<lparr>vcpu_list := (vcpu_list registered_ksm)(n := view_vcpu),
      task_list := [task42 ([512, 512][n := 1]) []]\<rparr>"

definition fault_res :: mm_res where
  "fault_res = \<lparr>remap_res = 0x7000, pool_res = 0x200, page_res = 0x1009000\<rparr>"



section \<open>Auxiliary facts\<close>

subsection \<open>Scanning a list\<close>

lemma first_index_None_iff: "first_index P xs = None \<longleftrightarrow> (\<forall>x\<in>set xs. \<not> P x)"
  by (induction xs) auto

lemma first_index_SomeD:
  "first_index P xs = Some i \<Longrightarrow> i < length xs \<and> P (xs ! i)"
  by (induction xs arbitrary: i) (auto split: if_splits)


subsection \<open>The branch condition\<close>

text \<open>
  The last conjunct of the condition masks the integer \<open>0\<close> or \<open>1\<close> with
  \<^verbatim>\<open>EPT_ACCESS_WRITE\<close>, so the copy branch can run only if that constant is odd.
\<close>

lemma cow_cond_iff:
  "cow_cond c u_pte g_va ac \<longleftrightarrow>
     (of_bool u_pte \<noteq> g_va \<and> ac \<noteq> 0 \<and> \<not> u_pte \<and> odd (EPT_ACCESS_WRITE c))"
  by (cases u_pte) (simp_all add: cow_cond_def one_and_eq mod_2_eq_odd)

subsection \<open>The page store\<close>

lemma copy_page_success:
  assumes "remap_res r \<noteq> 0" and "pool_res r \<noteq> 0" and "page_res r \<noteq> 0"
  shows "ksm_sandbox_copy_page c e r m task addr =
     (Some (pool_res r, \<lparr>gpa = addr, hpa = pa e (page_res r), hva = page_res r\<rparr>),
      task\<lparr>pages := list_add (pages task)
         (pool_res r, \<lparr>gpa = addr, hpa = pa e (page_res r), hva = page_res r\<rparr>)\<rparr>,
      m\<lparr>windows := (remap_res r, addr) # windows m,
        pool := pool_res r # pool m,
        page_allocs := page_res r # page_allocs m,
        phys := memcpy (phys m) (pa e (page_res r)) addr (PAGE_SIZE c)\<rparr>)"
  using assms
  by (simp add: ksm_sandbox_copy_page_def mm_remap_def mm_alloc_pool_def mm_alloc_page_def
      Let_def)

lemma memcpy_copied: "unat off < n \<Longrightarrow> memcpy m dst src n (dst + off) = m (src + off)"
  by (simp add: memcpy_def)

subsection \<open>Registration\<close>

lemma create_sa_task_cases:
  "create_sa_task c r k p d =
     (if r = 0 then (ERR_NOMEM c, k)
      else (0, k\<lparr>task_list := list_add (task_list k)
                    (r, \<lparr>pid = p, pgd = d,
                         eptp = replicate (KSM_MAX_VCPUS c) (EPT_MAX_EPTP_LIST c), pages = []\<rparr>),
                 mm := (mm k)\<lparr>pool := r # pool (mm k)\<rparr>\<rparr>))"
  by (simp add: create_sa_task_def mm_alloc_pool_def)

lemma registry_wf_create:
  assumes "registry_wf c k" and "r \<notin> set (pool (mm k))" and "r \<noteq> 0"
  shows "registry_wf c (k\<lparr>task_list := list_add (task_list k)
                    (r, \<lparr>pid = p, pgd = d,
                         eptp = replicate (KSM_MAX_VCPUS c) (EPT_MAX_EPTP_LIST c), pages = []\<rparr>),
                 mm := (mm k)\<lparr>pool := r # pool (mm k)\<rparr>\<rparr>)"
  using assms by (auto simp: registry_wf_def list_all_iff list_add_def)

subsection \<open>The CR3 load handler, branch by branch\<close>



subsection \<open>Teardown touches the EPT of one core\<close>

text \<open>
  \<^verbatim>\<open>__free_sa_task\<close> changes the EPT of the core it runs on and of no other, so
  the same holds of \<^verbatim>\<open>ksm_sandbox_exit\<close>.
\<close>

lemma free_sa_task_unlocked_other_core:
  "w \<noteq> cpu_nr e \<Longrightarrow> vcpu_list (free_sa_task_unlocked c e k t) w = vcpu_list k w"
  by (simp add: free_sa_task_unlocked_def Let_def)

lemma fold_free_other_core:
  "w \<noteq> cpu_nr e \<Longrightarrow>
   vcpu_list (fold (\<lambda>t k'. free_sa_task_unlocked c e k' t) ts k) w = vcpu_list k w"
  by (induction ts arbitrary: k) (simp_all add: free_sa_task_unlocked_other_core)

lemma exit_other_core:
  "w \<noteq> cpu_nr e \<Longrightarrow> vcpu_list (snd (ksm_sandbox_exit c e k)) w = vcpu_list k w"
  by (simp add: ksm_sandbox_exit_def fold_free_other_core)

subsection \<open>The copy branch of the handler\<close>


subsection \<open>Running the concrete machine\<close>

lemma replicate_two: "replicate 2 x = [x, x]"
  by (simp add: numeral_2_eq_2)

lemma sandbox_42:
  "ksm_sandbox x86_macros (core_env 0) 0x100 boot_ksm 42 = (0, registered_ksm)"
  by (simp add: ksm_sandbox_def create_sa_task_def mm_alloc_pool_def list_add_def core_env_def
      x86_macros_def boot_ksm_def registered_ksm_def task42_def boot_mm_def replicate_two)


lemma cr3_first_load:
  "n < 2 \<Longrightarrow>
   ksm_sandbox_handle_cr3 x86_macros (core_env n) (Some 1) registered_ksm n 0x1000 =
     Inr (view_ksm n)"
  by (simp add: ksm_sandbox_handle_cr3_def find_sa_task_pgd_def registered_ksm_def task42_def
      x86_macros_def boot_ksm_def core_env_def ept_create_ptr_def vcpu_switch_root_eptp_def
      view_ksm_def view_vcpu_def boot_vcpu_def boot_mm_def nth_Cons')

section \<open>The claims\<close>

text \<open>
  C1. The spec has the handler take the copy branch exactly when the access is a
  write by a user-privilege requester to an address that the guest's page tables do
  not open to user mode and that the view has not made writable. The code does
  otherwise. Process 42 is registered, its first CR3 load on core 0 makes view 1, and
  it then faults on a user-mode write (\<open>dpl = 3\<close>, access requested \<open>2\<close>, access
  present \<open>5\<close>) at guest physical address \<open>0x2000\<close>: the spec's trigger holds, yet the
  handler widens the entry in place to access \<open>7\<close>, leaves it pointing at frame \<open>2\<close>,
  and the task has no copied page.
\<close>

theorem scenario_a_takes_widen_branch:
  "ksm_sandbox x86_macros (core_env 0) 0x100 boot_ksm 42 = (0, registered_ksm) \<and>
   ksm_sandbox_handle_cr3 x86_macros (core_env 0) (Some 1) registered_ksm 0 0x1000 =
     Inr (view_ksm 0) \<and>
   cow_trigger_spec x86_macros 3
     (case pte_from_cr3_va (core_env 0) 0x1000 0x400000 of
        None \<Rightarrow> False | Some x \<Rightarrow> x AND PAGE_USER x86_macros \<noteq> 0) 5 2 \<and>
   ksm_sandbox_handle_ept x86_macros (core_env 0) fault_res (view_ksm 0) 0 3
       0x2000 0x400000 1 5 2 False 0 =
     Inr \<lparr>ret = True, invd = True, eptp_switch = 0,
          ksm_after = epte_store x86_macros (view_ksm 0) 0 1 0x2000
                        \<lparr>epte_ar = 7, epte_pfn = 2\<rparr>\<rparr> \<and>
   task_list (epte_store x86_macros (view_ksm 0) 0 1 0x2000 \<lparr>epte_ar = 7, epte_pfn = 2\<rparr>) =
     [task42 [1, 512] []] \<and>
   mm (epte_store x86_macros (view_ksm 0) 0 1 0x2000 \<lparr>epte_ar = 7, epte_pfn = 2\<rparr>) =
     mm registered_ksm"
proof -
  have "ksm_sandbox_handle_ept x86_macros (core_env 0) fault_res (view_ksm 0) 0 3
       0x2000 0x400000 1 5 2 False 0 =
     Inr \<lparr>ret = True, invd = True, eptp_switch = 0,
          ksm_after = epte_store x86_macros (view_ksm 0) 0 1 0x2000
                        \<lparr>epte_ar = 7, epte_pfn = 2\<rparr>\<rparr>"
    by (simp add: ksm_sandbox_handle_ept_def find_sa_task_def view_ksm_def registered_ksm_def
        task42_def core_env_def x86_macros_def task_eptp_def cow_cond_def ept_pte_def
        set_epte_ar_def view_vcpu_def boot_vcpu_def boot_ksm_def)
  moreover have "cow_trigger_spec x86_macros 3
     (case pte_from_cr3_va (core_env 0) 0x1000 0x400000 of
        None \<Rightarrow> False | Some x \<Rightarrow> x AND PAGE_USER x86_macros \<noteq> 0) 5 2"
    by (simp add: cow_trigger_spec_def core_env_def x86_macros_def)
  moreover have "task_list (epte_store x86_macros (view_ksm 0) 0 1 0x2000
       \<lparr>epte_ar = 7, epte_pfn = 2\<rparr>) = [task42 [1, 512] []]"
    by (simp add: epte_store_def view_ksm_def)
  moreover have "mm (epte_store x86_macros (view_ksm 0) 0 1 0x2000
       \<lparr>epte_ar = 7, epte_pfn = 2\<rparr>) = mm registered_ksm"
    by (simp add: epte_store_def view_ksm_def)
  ultimately show ?thesis
    using sandbox_42 cr3_first_load [of 0] by simp
qed

text \<open>
  C2. A successful \<^verbatim>\<open>ksm_sandbox_copy_page\<close> returns a record with the address given,
  the physical address of the new page and its mapping, has that record added to the
  task's list, has the page allocated by this call, and has every byte of the frame
  copied into it. The window that \<^verbatim>\<open>mm_remap\<close> opened is not released: it is still
  mapped when the call returns.
\<close>

theorem copy_page_success_keeps_window:
  assumes "remap_res r \<noteq> 0" and "pool_res r \<noteq> 0" and "page_res r \<noteq> 0"
  shows "\<exists>page task' m'. ksm_sandbox_copy_page c e r m task addr = (Some page, task', m') \<and>
     snd page = \<lparr>gpa = addr, hpa = pa e (page_res r), hva = page_res r\<rparr> \<and>
     pages task' = list_add (pages task) page \<and>
     page_allocs m' = page_res r # page_allocs m \<and>
     (\<forall>off. unat off < PAGE_SIZE c \<longrightarrow>
        phys m' (hpa (snd page) + off) = phys m (addr + off)) \<and>
     windows m' = (remap_res r, addr) # windows m"
  using assms by (simp add: copy_page_success memcpy_copied)

theorem copy_page_success_keeps_window_witness:
  "\<exists>page task' m'.
     ksm_sandbox_copy_page x86_macros (core_env 0) fault_res boot_mm (snd (task42 [1, 512] []))
       0x2000 = (Some page, task', m') \<and>
     snd page = \<lparr>gpa = 0x2000, hpa = 0x9000, hva = 0x1009000\<rparr> \<and>
     pages task' = [page] \<and>
     windows m' = [(0x7000, 0x2000)]"
proof -
  have h: "remap_res fault_res \<noteq> 0" "pool_res fault_res \<noteq> 0" "page_res fault_res \<noteq> 0"
    by (simp_all add: fault_res_def)
  from copy_page_success_keeps_window [OF h, of x86_macros "core_env 0" boot_mm
      "snd (task42 [1, 512] [])" "0x2000"]
  show ?thesis
    by (auto simp: fault_res_def core_env_def task42_def boot_mm_def list_add_def)
qed

text \<open>
  C3. When the window mapping, the record allocation or the page allocation fails,
  \<^verbatim>\<open>ksm_sandbox_copy_page\<close> returns \<^verbatim>\<open>NULL\<close> with the task and the memory
  collaborator's state exactly as before the call: what the call had acquired is
  released, and the page list is untouched.
\<close>

theorem copy_page_failure_releases:
  "remap_res r = 0 \<or> pool_res r = 0 \<or> page_res r = 0 \<Longrightarrow>
   ksm_sandbox_copy_page c e r m task addr = (None, task, m)"
  by (auto simp: ksm_sandbox_copy_page_def mm_remap_def mm_alloc_pool_def mm_alloc_page_def
      mm_unmap_def mm_free_pool_def Let_def)

theorem copy_page_failure_releases_witness:
  "page_res (fault_res\<lparr>page_res := 0\<rparr>) = 0 \<and>
   ksm_sandbox_copy_page x86_macros (core_env 0) (fault_res\<lparr>page_res := 0\<rparr>)
       (mm registered_ksm) (snd (task42 [1, 512] [])) 0x2000 =
     (None, snd (task42 [1, 512] []), mm registered_ksm)"
  using copy_page_failure_releases [of "fault_res\<lparr>page_res := 0\<rparr>" x86_macros "core_env 0"
      "mm registered_ksm" "snd (task42 [1, 512] [])" "0x2000"]
  by simp

text \<open>
  C4. When no task in the registry has the pid of the running process, the EPT
  violation handler returns true, asks for the default view, does not write the
  invalidation flag, and leaves the whole state, the registry and every page list
  with it, as it was.
\<close>

theorem handle_ept_unregistered:
  assumes "\<forall>t\<in>set (task_list k). pid (snd t) \<noteq> proc_pid e"
  shows "ksm_sandbox_handle_ept c e r k v dpl g_pa g_va cur ar ac i0 s0 =
     Inr \<lparr>ret = True, invd = i0, eptp_switch = EPTP_DEFAULT c, ksm_after = k\<rparr>"
proof -
  from assms have "find_sa_task k (proc_pid e) = None"
    by (simp add: find_sa_task_def first_index_None_iff)
  then show ?thesis
    by (simp add: ksm_sandbox_handle_ept_def)
qed

theorem handle_ept_unregistered_witness:
  "ksm_sandbox_handle_ept x86_macros ((core_env 0)\<lparr>proc_pid := 43\<rparr>) fault_res (view_ksm 0) 0 3
       0x2000 0x400000 1 5 2 False 9 =
     Inr \<lparr>ret = True, invd = False, eptp_switch = 0, ksm_after = view_ksm 0\<rparr>"
proof -
  have h: "\<forall>t\<in>set (task_list (view_ksm 0)). pid (snd t) \<noteq> proc_pid ((core_env 0)\<lparr>proc_pid := 43\<rparr>)"
    by (simp add: view_ksm_def task42_def)
  from handle_ept_unregistered [OF h, of x86_macros fault_res 0 3 "0x2000" "0x400000" 1 5 2 False 9]
  show ?thesis
    by (simp add: x86_macros_def)
qed



text \<open>
  C6. A CR3 load whose page directory base is that of no task in the registry
  returns with the core's active view set to \<^verbatim>\<open>EPTP_DEFAULT\<close>; the registry (every
  task record, with its slots and its page list), the memory collaborator's state and
  the EPT of every core are as before, and no other core's state changes.
\<close>

theorem handle_cr3_unregistered:
  assumes "\<forall>t\<in>set (task_list k). pgd (snd t) \<noteq> cr3 AND PAGE_PA_MASK c"
  shows "\<exists>k'. ksm_sandbox_handle_cr3 c e r k v cr3 = Inr k' \<and>
           root_eptp (vcpu_list k' v) = EPTP_DEFAULT c \<and>
           task_list k' = task_list k \<and> mm k' = mm k \<and>
           (\<forall>w. ept (vcpu_list k' w) = ept (vcpu_list k w)) \<and>
           (\<forall>w. w \<noteq> v \<longrightarrow> vcpu_list k' w = vcpu_list k w)"
proof -
  from assms have "find_sa_task_pgd k (cr3 AND PAGE_PA_MASK c) = None"
    by (simp add: find_sa_task_pgd_def first_index_None_iff)
  then have "ksm_sandbox_handle_cr3 c e r k v cr3 =
      Inr (vcpu_switch_root_eptp k v (EPTP_DEFAULT c))"
    by (simp add: ksm_sandbox_handle_cr3_def)
  then show ?thesis
    by (simp add: vcpu_switch_root_eptp_def)
qed

theorem handle_cr3_unregistered_witness:
  "\<exists>k'. ksm_sandbox_handle_cr3 x86_macros (core_env 0) None (view_ksm 0) 0 0x5000 = Inr k' \<and>
         root_eptp (vcpu_list k' 0) = 0 \<and>
         task_list k' = [task42 [1, 512] []] \<and>
         ptr_list (ept (vcpu_list k' 0)) = [(1, 5), (0, 7)]"
proof -
  have h: "\<forall>t\<in>set (task_list (view_ksm 0)). pgd (snd t) \<noteq> 0x5000 AND PAGE_PA_MASK x86_macros"
    by (simp add: view_ksm_def task42_def x86_macros_def)
  from handle_cr3_unregistered [OF h, of "core_env 0" None 0]
  show ?thesis
    by (auto simp: x86_macros_def view_ksm_def view_vcpu_def)
qed

text \<open>
  C7. \<^verbatim>\<open>ksm_sandbox_exit\<close> frees the record of every task, and for every slot that is
  not unassigned it frees that identifier, but always in the EPT of the core the call
  runs on. Process 42 is registered and its first CR3 load happens on core 1, which makes
  view 1 there. Shutdown on core 0 frees the task record and leaves view 1 of core 1
  allocated. When the load had happened on core 0 instead, the view is freed.
\<close>

theorem exit_leaves_view_of_other_core:
  "ksm_sandbox x86_macros (core_env 0) 0x100 boot_ksm 42 = (0, registered_ksm) \<and>
   ksm_sandbox_handle_cr3 x86_macros (core_env 1) (Some 1) registered_ksm 1 0x1000 =
     Inr (view_ksm 1) \<and>
   eptp (snd (task_list (view_ksm 1) ! 0)) = [512, 1] \<and>
   (case ksm_sandbox_exit x86_macros (core_env 0) (view_ksm 1) of
      (rc, k') \<Rightarrow> rc = 0 \<and> pool (mm k') = [] \<and>
                  ptr_list (ept (vcpu_list k' 1)) = [(1, 5), (0, 7)]) \<and>
   (case ksm_sandbox_exit x86_macros (core_env 0) (view_ksm 0) of
      (rc, k') \<Rightarrow> rc = 0 \<and> pool (mm k') = [] \<and>
                  ptr_list (ept (vcpu_list k' 0)) = [(0, 7)])"
proof -
  have "case ksm_sandbox_exit x86_macros (core_env 0) (view_ksm 1) of
      (rc, k') \<Rightarrow> rc = 0 \<and> pool (mm k') = [] \<and>
                  ptr_list (ept (vcpu_list k' 1)) = [(1, 5), (0, 7)]"
    by (simp add: ksm_sandbox_exit_def free_sa_task_unlocked_def free_sa_task_views_def
        ept_free_ptr_def mm_free_pool_def view_ksm_def registered_ksm_def task42_def
        core_env_def x86_macros_def view_vcpu_def boot_vcpu_def boot_ksm_def boot_mm_def
        Let_def)
  moreover have "case ksm_sandbox_exit x86_macros (core_env 0) (view_ksm 0) of
      (rc, k') \<Rightarrow> rc = 0 \<and> pool (mm k') = [] \<and>
                  ptr_list (ept (vcpu_list k' 0)) = [(0, 7)]"
    by (simp add: ksm_sandbox_exit_def free_sa_task_unlocked_def free_sa_task_views_def
        ept_free_ptr_def mm_free_pool_def view_ksm_def registered_ksm_def task42_def
        core_env_def x86_macros_def view_vcpu_def boot_vcpu_def boot_ksm_def boot_mm_def
        Let_def)
  moreover have "eptp (snd (task_list (view_ksm 1) ! 0)) = [512, 1]"
    by (simp add: view_ksm_def task42_def)
  ultimately show ?thesis
    using sandbox_42 cr3_first_load [of 1] by simp
qed

text \<open>
  C8. \<^verbatim>\<open>ksm_sandbox\<close> called for a pid that is registered already looks for no existing
  task. It either returns an error code (the process lookup or the record allocation
  failed) with the state unchanged, or returns 0 and adds one new task record of its
  own for the pid, with every slot unassigned and an empty page list. Either way every
  record that was in the registry is still there unchanged and the cores are untouched,
  and the registry stays well formed when the allocator hands out a record that is
  not in use.
\<close>

theorem sandbox_registered_again:
  assumes "find_sa_task k p = Some ti"
  shows "\<exists>rc k'. ksm_sandbox c e r k p = (rc, k') \<and>
     ((rc \<in> {- EINVAL c, - ENOENT c, ERR_NOMEM c} \<and> k' = k) \<or>
      (rc = 0 \<and> (\<exists>d. task_list k' = list_add (task_list k)
          (r, \<lparr>pid = p, pgd = d,
               eptp = replicate (KSM_MAX_VCPUS c) (EPT_MAX_EPTP_LIST c), pages = []\<rparr>)))) \<and>
     task_list k' ! ti = task_list k ! ti \<and>
     take (length (task_list k)) (task_list k') = task_list k \<and>
     vcpu_list k' = vcpu_list k \<and>
     (registry_wf c k \<and> r \<notin> set (pool (mm k)) \<longrightarrow> registry_wf c k')"
proof -
  from assms have ti: "ti < length (task_list k)"
    using first_index_SomeD [of "\<lambda>t. pid (snd t) = p" "task_list k" ti]
    by (simp add: find_sa_task_def)
  show ?thesis
  proof (cases "find_vpid e p")
    case None
    then show ?thesis by (simp add: ksm_sandbox_def)
  next
    case (Some tsk_pid)
    show ?thesis
    proof (cases "pid_task e tsk_pid")
      case None
      with Some show ?thesis by (simp add: ksm_sandbox_def)
    next
      case (Some tsk_pgd)
      note tsk = \<open>find_vpid e p = Some tsk_pid\<close> Some
      show ?thesis
      proof (cases "r = 0")
        case True
        with tsk show ?thesis
          by (simp add: ksm_sandbox_def create_sa_task_cases)
      next
        case False
        let ?new = "(r, \<lparr>pid = p, pgd = pa e tsk_pgd AND PAGE_PA_MASK c,
                eptp = replicate (KSM_MAX_VCPUS c) (EPT_MAX_EPTP_LIST c), pages = []\<rparr>)"
        let ?k = "k\<lparr>task_list := list_add (task_list k) ?new,
                    mm := (mm k)\<lparr>pool := r # pool (mm k)\<rparr>\<rparr>"
        have run: "ksm_sandbox c e r k p = (0, ?k)"
          using tsk False by (simp add: ksm_sandbox_def create_sa_task_cases)
        have added: "(0 \<in> {- EINVAL c, - ENOENT c, ERR_NOMEM c} \<and> ?k = k) \<or>
            (0 = (0 :: int) \<and> (\<exists>d. task_list ?k = list_add (task_list k)
               (r, \<lparr>pid = p, pgd = d,
                    eptp = replicate (KSM_MAX_VCPUS c) (EPT_MAX_EPTP_LIST c), pages = []\<rparr>)))"
          by (intro disjI2 conjI exI [of _ "pa e tsk_pgd AND PAGE_PA_MASK c"]) simp_all
        have same: "task_list ?k ! ti = task_list k ! ti"
          using ti by (simp add: nth_append list_add_def)
        have prefix: "take (length (task_list k)) (task_list ?k) = task_list k"
          by (simp add: list_add_def)
        have cores: "vcpu_list ?k = vcpu_list k"
          by simp
        have wf: "registry_wf c k \<and> r \<notin> set (pool (mm k)) \<longrightarrow> registry_wf c ?k"
          using False registry_wf_create by blast
        show ?thesis
          by (intro exI [of _ "0 :: int"] exI [of _ ?k] conjI run added same prefix cores wf)
      qed
    qed
  qed
qed

theorem sandbox_registered_again_witness:
  "find_sa_task registered_ksm 42 = Some 0 \<and>
   (\<exists>k'. ksm_sandbox x86_macros (core_env 0) 0x300 registered_ksm 42 = (0, k') \<and>
      task_list k' = [task42 [512, 512] [],
                      (0x300, \<lparr>pid = 42, pgd = 0x1000, eptp = [512, 512], pages = []\<rparr>)] \<and>
      registry_wf x86_macros k')"
proof -
  have h: "find_sa_task registered_ksm 42 = Some 0"
    by (simp add: find_sa_task_def registered_ksm_def task42_def)
  have wf: "registry_wf x86_macros registered_ksm \<and> 0x300 \<notin> set (pool (mm registered_ksm))"
    by (simp add: registry_wf_def registered_ksm_def task42_def x86_macros_def boot_mm_def)
  have run: "fst (ksm_sandbox x86_macros (core_env 0) 0x300 registered_ksm 42) = 0 \<and>
      task_list (snd (ksm_sandbox x86_macros (core_env 0) 0x300 registered_ksm 42)) =
        [task42 [512, 512] [],
         (0x300, \<lparr>pid = 42, pgd = 0x1000, eptp = [512, 512], pages = []\<rparr>)]"
    by (simp add: ksm_sandbox_def create_sa_task_cases list_add_def core_env_def x86_macros_def
        registered_ksm_def replicate_two)
  from sandbox_registered_again [OF h, of x86_macros "core_env 0" "0x300"] obtain rc k' where
    k': "ksm_sandbox x86_macros (core_env 0) 0x300 registered_ksm 42 = (rc, k')" and
    keep: "registry_wf x86_macros registered_ksm \<and> 0x300 \<notin> set (pool (mm registered_ksm)) \<longrightarrow>
           registry_wf x86_macros k'"
    by blast
  from keep wf have "registry_wf x86_macros k'"
    by blast
  with run k' h show ?thesis
    by simp
qed

text \<open>
  C9. The EPT violation handler never consults the privilege level of the faulting
  access: two calls that differ in \<open>dpl\<close> alone have the same outcome, that is the
  same fault, or the same return value, invalidation flag, view switch and state,
  hence the same branch and the same change of the entry.
\<close>

theorem handle_ept_ignores_dpl:
  "ksm_sandbox_handle_ept c e r k v dpl1 g_pa g_va cur ar ac i0 s0 =
   ksm_sandbox_handle_ept c e r k v dpl2 g_pa g_va cur ar ac i0 s0"
  by (cases "find_sa_task k (proc_pid e)") (simp_all add: ksm_sandbox_handle_ept_def Let_def)



end
